theory Spec2Isabelle
  imports Main
begin

section \<open>Data model of the chat store\<close>

text \<open>
  The types of \<^verbatim>\<open>src/contexts/ChatContext.tsx\<close>. A JavaScript string is modelled as a
  \<^typ>\<open>string\<close> whose characters stand for UTF-16 code units below 256; texts with higher
  code units are outside the model. Timestamps are the integral milliseconds of
  \<^verbatim>\<open>Date.now()\<close>. The code never updates an array or an object in place (every change
  builds a new value and hands it to a state setter), so values with no identity are
  faithful to it.
\<close>

datatype role = User | Assistant | System

record message =
  message_id :: string
  role :: role
  content :: string
  timestamp :: int

record chat =
  chat_id :: string
  title :: string
  messages :: "message list"
  createdAt :: int
  updatedAt :: int

text \<open>The identity supplied by \<^verbatim>\<open>useAuth()\<close> (AuthContext).\<close>

record auth_user =
  user_id :: string
  email :: string
  name :: string

record upload_file =
  file_name :: string
  file_size :: nat

subsection \<open>Effects: requests and notifications\<close>

datatype body =
    NoBody
  | JsonTitle string
  | JsonContent string
  | JsonUrls "string list"
  | FormFiles "upload_file list"

record request =
  url :: string
  http_method :: string
  bearer :: string
  body :: body

datatype toast = ToastError string | ToastSuccess string | ToastWarning string

text \<open>
  What an awaited \<^verbatim>\<open>fetch\<close> settles to: the promise rejects (\<open>NetworkError\<close>), or it yields
  a response with its \<^verbatim>\<open>ok\<close> flag and the result of \<^verbatim>\<open>response.json()\<close>, \<open>None\<close> when that
  promise rejects.
\<close>

datatype 'a response = NetworkError | Response bool "'a option"

subsection \<open>The state of the provider\<close>

text \<open>
  The five \<^verbatim>\<open>useState\<close> cells of \<^verbatim>\<open>ChatProvider\<close>, the identity it reads from the
  authentication context, the \<^verbatim>\<open>auth_token\<close> entry of local storage, and the two logs of
  what the provider did to the outside: the notifications shown and the requests issued,
  oldest first. Output to the console is not recorded.
\<close>

record store =
  user :: "auth_user option"
  token :: "string option"
  chats :: "chat list"
  currentChat :: "chat option"
  isLoading :: bool
  uploadingFiles :: bool
  processingFiles :: bool
  toasts :: "toast list"
  fetches :: "request list"

definition backendUrl :: string where
  "backendUrl = ''http://localhost:8000''"

definition toast_error :: "string \<Rightarrow> store \<Rightarrow> store" where
  "toast_error msg s = s\<lparr>toasts := toasts s @ [ToastError msg]\<rparr>"

definition toast_success :: "string \<Rightarrow> store \<Rightarrow> store" where
  "toast_success msg s = s\<lparr>toasts := toasts s @ [ToastSuccess msg]\<rparr>"

definition fetch :: "request \<Rightarrow> store \<Rightarrow> store" where
  "fetch r s = s\<lparr>fetches := fetches s @ [r]\<rparr>"

subsection \<open>Strings\<close>

text \<open>Decimal rendering of a number inside a template literal.\<close>

fun digits :: "nat \<Rightarrow> string" where
  "digits n =
     (if n < 10 then [''0123456789'' ! n]
      else digits (n div 10) @ [''0123456789'' ! (n mod 10)])"

declare digits.simps [simp del]

definition show_int :: "int \<Rightarrow> string" where
  "show_int i = (if i < 0 then ''-'' @ digits (nat (- i)) else digits (nat i))"

text \<open>
  \<^verbatim>\<open>String.prototype.trim\<close>: the white space and line terminator code units below 256 are
  TAB, LF, VT, FF, CR, SP and NBSP.
\<close>

definition js_whitespace :: "char \<Rightarrow> bool" where
  "js_whitespace ch \<longleftrightarrow>
     ch \<in> set [CHR 0x09, CHR 0x0A, CHR 0x0B, CHR 0x0C, CHR 0x0D, CHR 0x20, CHR 0xA0]"

definition trim :: "string \<Rightarrow> string" where
  "trim s = rev (dropWhile js_whitespace (rev (dropWhile js_whitespace s)))"

section \<open>Operations of the provider\<close>

text \<open>
  Every operation is an \<^verbatim>\<open>async\<close> function. Its body runs synchronously up to its first
  \<^verbatim>\<open>await fetch\<close>; the rest runs when the response arrives, and other operations may run
  in between. So each operation is a \<open>_begin\<close> step and a \<open>_resolve\<close> step on the store.

  A handler reads \<^verbatim>\<open>user\<close>, \<^verbatim>\<open>currentChat\<close> and \<^verbatim>\<open>chats\<close> from the closure of the
  render that created it, not from the live state: the argument \<open>c\<close> is the store as that
  render saw it, \<open>s\<close> is the live store. A setter called with a value overwrites the cell;
  a setter called with a function (\<^verbatim>\<open>setChats((prev) => ...)\<close>) reads the live cell.
  Local storage is read live. A \<open>_begin\<close> step returns whether the request was issued.
\<close>

subsection \<open>Reconciliation\<close>

text \<open>
  What sendMessage, uploadDocuments and addWebsites do with the chat the server returned:
  \<^verbatim>\<open>setCurrentChat(updatedChat)\<close>, then
  \<^verbatim>\<open>setChats((prevChats) => prevChats.map((chat) => (chat.id === updatedChat.id ? updatedChat : chat)))\<close>.
\<close>

definition reconcile :: "chat \<Rightarrow> store \<Rightarrow> store" where
  "reconcile updatedChat s =
     s\<lparr>currentChat := Some updatedChat,
       chats := map (\<lambda>chat. if chat_id chat = chat_id updatedChat then updatedChat else chat)
                  (chats s)\<rparr>"

subsection \<open>sendMessage\<close>

definition sendMessage_begin ::
  "store \<Rightarrow> string \<Rightarrow> int \<Rightarrow> int \<Rightarrow> int \<Rightarrow> store \<Rightarrow> store \<times> bool" where
  "sendMessage_begin c input t_id t_msg t_upd s =
     (case (user c, currentChat c) of
        (Some u, Some cur) \<Rightarrow>
          (case token s of
             None \<Rightarrow> (s, False)
           | Some tok \<Rightarrow>
               let userMessage = \<lparr>message_id = ''temp-'' @ show_int t_id, role = User,
                                  content = input, timestamp = t_msg\<rparr>;
                   chatCopy = cur\<lparr>messages := messages cur @ [userMessage], updatedAt := t_upd\<rparr>
               in (fetch \<lparr>url = backendUrl @ ''/api/chats/'' @ chat_id cur @ ''/messages'',
                          http_method = ''POST'', bearer = tok, body = JsonContent input\<rparr>
                     (s\<lparr>isLoading := True, currentChat := Some chatCopy\<rparr>), True))
      | _ \<Rightarrow> (toast_error ''Please create a new chat first'' s, False))"

definition sendMessage_resolve :: "chat response \<Rightarrow> store \<Rightarrow> store" where
  "sendMessage_resolve resp s =
     (case resp of
        Response True (Some updatedChat) \<Rightarrow> (reconcile updatedChat s)\<lparr>isLoading := False\<rparr>
      | _ \<Rightarrow> (toast_error ''Failed to send message. Please try again.'' s)\<lparr>isLoading := False\<rparr>)"


subsection \<open>ChatInput.handleSubmit, the caller of sendMessage\<close>

text \<open>
  \<^verbatim>\<open>src/components/chat/ChatInput.tsx\<close>. The component state is the text typed so far;
  the result is the new text, the store and whether sendMessage issued its request.
\<close>

definition handleSubmit ::
  "store \<Rightarrow> string \<Rightarrow> int \<Rightarrow> int \<Rightarrow> int \<Rightarrow> store \<Rightarrow> string \<times> store \<times> bool" where
  "handleSubmit c message t_id t_msg t_upd s =
     (if trim message = [] \<or> isLoading c \<or> currentChat c = None then (message, s, False)
      else ([], sendMessage_begin c message t_id t_msg t_upd s))"

subsection \<open>createChat\<close>

definition createChat_begin :: "store \<Rightarrow> store \<Rightarrow> store \<times> bool" where
  "createChat_begin c s =
     (case user c of
        None \<Rightarrow> (toast_error ''Please log in to create a chat'' s, False)
      | Some u \<Rightarrow>
          (case token s of
             None \<Rightarrow> (s, False)
           | Some tok \<Rightarrow>
               (fetch \<lparr>url = backendUrl @ ''/api/chats'', http_method = ''POST'', bearer = tok,
                       body = JsonTitle ''New Chat''\<rparr> s, True)))"

definition createChat_resolve :: "chat response \<Rightarrow> store \<Rightarrow> store" where
  "createChat_resolve resp s =
     (case resp of
        Response True (Some newChat) \<Rightarrow> s\<lparr>chats := newChat # chats s, currentChat := Some newChat\<rparr>
      | _ \<Rightarrow> toast_error ''Failed to create new chat'' s)"


subsection \<open>deleteChat\<close>

text \<open>
  \<^verbatim>\<open>currentChat?.id === chatId\<close> is false when there is no current chat. The test and the
  list of remaining chats read the closure; the filter on the stored list reads the live
  cell. The body of the response is never read.
\<close>

definition deleteChat_begin :: "string \<Rightarrow> store \<Rightarrow> store \<times> bool" where
  "deleteChat_begin chatId s =
     (case token s of
        None \<Rightarrow> (s, False)
      | Some tok \<Rightarrow>
          (fetch \<lparr>url = backendUrl @ ''/api/chats/'' @ chatId, http_method = ''DELETE'', bearer = tok,
                  body = NoBody\<rparr> s, True))"

definition deleteChat_resolve :: "store \<Rightarrow> string \<Rightarrow> unit response \<Rightarrow> store \<Rightarrow> store" where
  "deleteChat_resolve c chatId resp s =
     (case resp of
        Response True _ \<Rightarrow>
          (let s1 = s\<lparr>chats := filter (\<lambda>chat. chat_id chat \<noteq> chatId) (chats s)\<rparr>
           in if map_option chat_id (currentChat c) = Some chatId
              then (let remainingChats = filter (\<lambda>chat. chat_id chat \<noteq> chatId) (chats c)
                    in s1\<lparr>currentChat :=
                            (case remainingChats of [] \<Rightarrow> None | first # _ \<Rightarrow> Some first)\<rparr>)
              else s1)
      | _ \<Rightarrow> toast_error ''Failed to delete chat'' s)"


subsection \<open>renameChat\<close>

definition renameChat_begin :: "string \<Rightarrow> string \<Rightarrow> store \<Rightarrow> store \<times> bool" where
  "renameChat_begin chatId newTitle s =
     (case token s of
        None \<Rightarrow> (s, False)
      | Some tok \<Rightarrow>
          (fetch \<lparr>url = backendUrl @ ''/api/chats/'' @ chatId, http_method = ''PATCH'', bearer = tok,
                  body = JsonTitle newTitle\<rparr> s, True))"

definition renameChat_resolve :: "store \<Rightarrow> string \<Rightarrow> chat response \<Rightarrow> store \<Rightarrow> store" where
  "renameChat_resolve c chatId resp s =
     (case resp of
        Response True (Some updatedChat) \<Rightarrow>
          (let s1 = s\<lparr>chats := map (\<lambda>chat. if chat_id chat = chatId then updatedChat else chat)
                                  (chats s)\<rparr>
           in if map_option chat_id (currentChat c) = Some chatId
              then s1\<lparr>currentChat := Some updatedChat\<rparr>
              else s1)
      | _ \<Rightarrow> toast_error ''Failed to rename chat'' s)"


subsection \<open>uploadDocuments\<close>

text \<open>
  Three suspensions: the upload, the fixed delay, the fetch of the updated chat. A begun
  upload hands on the locals \<^verbatim>\<open>currentChat\<close> and \<^verbatim>\<open>token\<close> that the later fetch uses.
  \<open>uploadDocuments_failed\<close> is the \<^verbatim>\<open>catch\<close> block followed by the \<^verbatim>\<open>finally\<close> block.
\<close>

definition uploadDocuments_begin ::
  "store \<Rightarrow> upload_file list \<Rightarrow> store \<Rightarrow> store \<times> (chat \<times> string) option" where
  "uploadDocuments_begin c files s =
     (case (user c, currentChat c) of
        (Some u, Some cur) \<Rightarrow>
          (case token s of
             None \<Rightarrow> (s, None)
           | Some tok \<Rightarrow>
               (fetch \<lparr>url = backendUrl @ ''/api/chats/'' @ chat_id cur @ ''/documents'',
                       http_method = ''POST'', bearer = tok, body = FormFiles files\<rparr>
                  (s\<lparr>uploadingFiles := True\<rparr>), Some (cur, tok)))
      | _ \<Rightarrow> (toast_error ''Please create a new chat first'' s, None))"

definition uploadDocuments_failed :: "store \<Rightarrow> store" where
  "uploadDocuments_failed s =
     (toast_error ''Failed to upload documents. Please try again.'' s)
       \<lparr>uploadingFiles := False, processingFiles := False\<rparr>"

definition uploadDocuments_accepted :: "unit response \<Rightarrow> store \<Rightarrow> store \<times> bool" where
  "uploadDocuments_accepted resp s =
     (case resp of
        Response True (Some result) \<Rightarrow> (s\<lparr>processingFiles := True\<rparr>, True)
      | _ \<Rightarrow> (uploadDocuments_failed s, False))"

definition refetch :: "chat \<times> string \<Rightarrow> store \<Rightarrow> store" where
  "refetch p s =
     fetch \<lparr>url = backendUrl @ ''/api/chats/'' @ chat_id (fst p), http_method = ''GET'',
            bearer = snd p, body = NoBody\<rparr> s"

definition uploadDocuments_resolve :: "upload_file list \<Rightarrow> chat response \<Rightarrow> store \<Rightarrow> store" where
  "uploadDocuments_resolve files resp s =
     (case resp of
        Response True (Some updatedChat) \<Rightarrow>
          (toast_success (digits (length files) @ '' document(s) processed and ready for querying'')
             (reconcile updatedChat s))
            \<lparr>uploadingFiles := False, processingFiles := False\<rparr>
      | Response True None \<Rightarrow> uploadDocuments_failed s
      | Response False _ \<Rightarrow>
          (toast_success (digits (length files) @ '' document(s) processed and ready for querying'') s)
            \<lparr>uploadingFiles := False, processingFiles := False\<rparr>
      | NetworkError \<Rightarrow> uploadDocuments_failed s)"

text \<open>
  The operation run to completion with nothing in between, called through a handler of
  the render \<open>c\<close>; \<open>uploadDocuments\<close> is the call from the current render.
\<close>

definition uploadDocuments_from ::
  "store \<Rightarrow> upload_file list \<Rightarrow> unit response \<Rightarrow> chat response \<Rightarrow> store \<Rightarrow> store" where
  "uploadDocuments_from c files r1 r2 s =
     (case uploadDocuments_begin c files s of
        (s1, None) \<Rightarrow> s1
      | (s1, Some p) \<Rightarrow>
          (case uploadDocuments_accepted r1 s1 of
             (s2, False) \<Rightarrow> s2
           | (s2, True) \<Rightarrow> uploadDocuments_resolve files r2 (refetch p s2)))"


subsection \<open>addWebsites\<close>

text \<open>The first response is only tested for \<^verbatim>\<open>ok\<close>; its body is not read.\<close>

definition addWebsites_begin ::
  "store \<Rightarrow> string list \<Rightarrow> store \<Rightarrow> store \<times> (chat \<times> string) option" where
  "addWebsites_begin c urls s =
     (case (user c, currentChat c) of
        (Some u, Some cur) \<Rightarrow>
          (case token s of
             None \<Rightarrow> (s, None)
           | Some tok \<Rightarrow>
               (fetch \<lparr>url = backendUrl @ ''/api/chats/'' @ chat_id cur @ ''/websites'',
                       http_method = ''POST'', bearer = tok, body = JsonUrls urls\<rparr>
                  (s\<lparr>processingFiles := True\<rparr>), Some (cur, tok)))
      | _ \<Rightarrow> (toast_error ''Please create a new chat first'' s, None))"

definition addWebsites_failed :: "store \<Rightarrow> store" where
  "addWebsites_failed s =
     (toast_error ''Failed to process websites. Please try again.'' s)\<lparr>processingFiles := False\<rparr>"

definition addWebsites_accepted :: "unit response \<Rightarrow> store \<Rightarrow> store \<times> bool" where
  "addWebsites_accepted resp s =
     (case resp of
        Response True _ \<Rightarrow> (s, True)
      | _ \<Rightarrow> (addWebsites_failed s, False))"

definition addWebsites_resolve :: "string list \<Rightarrow> chat response \<Rightarrow> store \<Rightarrow> store" where
  "addWebsites_resolve urls resp s =
     (case resp of
        Response True (Some updatedChat) \<Rightarrow>
          (toast_success (digits (length urls) @ '' website(s) processed and ready for querying'')
             (reconcile updatedChat s))
            \<lparr>processingFiles := False\<rparr>
      | Response True None \<Rightarrow> addWebsites_failed s
      | Response False _ \<Rightarrow>
          (toast_success (digits (length urls) @ '' website(s) processed and ready for querying'') s)
            \<lparr>processingFiles := False\<rparr>
      | NetworkError \<Rightarrow> addWebsites_failed s)"

definition addWebsites_from ::
  "store \<Rightarrow> string list \<Rightarrow> unit response \<Rightarrow> chat response \<Rightarrow> store \<Rightarrow> store" where
  "addWebsites_from c urls r1 r2 s =
     (case addWebsites_begin c urls s of
        (s1, None) \<Rightarrow> s1
      | (s1, Some p) \<Rightarrow>
          (case addWebsites_accepted r1 s1 of
             (s2, False) \<Rightarrow> s2
           | (s2, True) \<Rightarrow> addWebsites_resolve urls r2 (refetch p s2)))"


subsection \<open>Identity changes\<close>

text \<open>
  \<^verbatim>\<open>fetchChats\<close>, and the effect of \<^verbatim>\<open>ChatProvider\<close> that runs when \<^verbatim>\<open>user\<close> changed.
  \<open>logout\<close> is \<^verbatim>\<open>AuthContext.logout\<close> followed by that effect.
\<close>

definition fetchChats_begin :: "store \<Rightarrow> store \<times> bool" where
  "fetchChats_begin s =
     (case token s of
        None \<Rightarrow> (s, False)
      | Some tok \<Rightarrow>
          (fetch \<lparr>url = backendUrl @ ''/api/chats'', http_method = ''GET'', bearer = tok,
                  body = NoBody\<rparr> s, True))"

definition fetchChats_resolve :: "store \<Rightarrow> chat list response \<Rightarrow> store \<Rightarrow> store" where
  "fetchChats_resolve c resp s =
     (case resp of
        Response True (Some fetchedChats) \<Rightarrow>
          (let s1 = s\<lparr>chats := fetchedChats\<rparr>
           in case (currentChat c, fetchedChats) of
                (None, first # _) \<Rightarrow> s1\<lparr>currentChat := Some first\<rparr>
              | _ \<Rightarrow> s1)
      | Response True None \<Rightarrow> toast_error ''Failed to load chat history'' s
      | Response False _ \<Rightarrow> s
      | NetworkError \<Rightarrow> toast_error ''Failed to load chat history'' s)"

definition userEffect :: "store \<Rightarrow> store \<times> bool" where
  "userEffect s =
     (case user s of
        Some u \<Rightarrow> fetchChats_begin s
      | None \<Rightarrow> (s\<lparr>chats := [], currentChat := None\<rparr>, False))"

definition logout :: "store \<Rightarrow> store" where
  "logout s = fst (userEffect (toast_success ''Logged out successfully'' (s\<lparr>token := None, user := None\<rparr>)))"

text \<open>
  The effect when \<^verbatim>\<open>user\<close> became \<open>u\<close>, with the response to \<^verbatim>\<open>fetchChats\<close>, run to
  completion.
\<close>

definition identityActivated :: "auth_user \<Rightarrow> chat list response \<Rightarrow> store \<Rightarrow> store" where
  "identityActivated u resp s =
     (let s1 = s\<lparr>user := Some u\<rparr>
      in case userEffect s1 of
           (s2, True) \<Rightarrow> fetchChats_resolve s1 resp s2
         | (s2, False) \<Rightarrow> s2)"

subsection \<open>The operations as one step function\<close>




text \<open>The active chat is unset or its identifier is one of the stored chats'.\<close>

definition active_ok :: "store \<Rightarrow> bool" where
  "active_ok s \<longleftrightarrow>
     (case currentChat s of
        None \<Rightarrow> True
      | Some cur \<Rightarrow> chat_id cur \<in> set (map chat_id (chats s)))"




subsection \<open>Create, rename and delete in any interleaving\<close>

text \<open>
  The calls and the successful completions of createChat, renameChat and deleteChat as
  separate events, each with the render \<open>c\<close> whose handler it belongs to. A list of such
  events is any interleaving of these operations.
\<close>

datatype event =
    CreateCalled
  | RenameCalled string string
  | DeleteCalled string
  | CreateSucceeded chat
  | RenameSucceeded string chat
  | DeleteSucceeded string

fun event_step :: "store \<times> event \<Rightarrow> store \<Rightarrow> store" where
  "event_step (c, CreateCalled) s = fst (createChat_begin c s)"
| "event_step (c, RenameCalled chatId newTitle) s = fst (renameChat_begin chatId newTitle s)"
| "event_step (c, DeleteCalled chatId) s = fst (deleteChat_begin chatId s)"
| "event_step (c, CreateSucceeded newChat) s = createChat_resolve (Response True (Some newChat)) s"
| "event_step (c, RenameSucceeded chatId updatedChat) s =
     renameChat_resolve c chatId (Response True (Some updatedChat)) s"
| "event_step (c, DeleteSucceeded chatId) s = deleteChat_resolve c chatId (Response True None) s"

fun run :: "(store \<times> event) list \<Rightarrow> store \<Rightarrow> store" where
  "run [] s = s"
| "run (e # es) s = run es (event_step e s)"

fun created :: "(store \<times> event) list \<Rightarrow> string set" where
  "created [] = {}"
| "created ((c, CreateSucceeded newChat) # es) = insert (chat_id newChat) (created es)"
| "created (e # es) = created es"

fun removed :: "(store \<times> event) list \<Rightarrow> string set" where
  "removed [] = {}"
| "removed ((c, DeleteSucceeded chatId) # es) = insert chatId (removed es)"
| "removed (e # es) = removed es"

text \<open>
  The server's side of the contract: a rename returns the chat it was asked to rename, and
  a new chat never gets an identifier that was deleted before (\<open>gone\<close> collects them).
\<close>

fun rename_keeps_id :: "(store \<times> event) list \<Rightarrow> bool" where
  "rename_keeps_id [] = True"
| "rename_keeps_id ((c, RenameSucceeded chatId updatedChat) # es) =
     (chat_id updatedChat = chatId \<and> rename_keeps_id es)"
| "rename_keeps_id (e # es) = rename_keeps_id es"

fun fresh_creates :: "string list \<Rightarrow> (store \<times> event) list \<Rightarrow> bool" where
  "fresh_creates gone [] = True"
| "fresh_creates gone ((c, CreateSucceeded newChat) # es) =
     (chat_id newChat \<notin> set gone \<and> fresh_creates gone es)"
| "fresh_creates gone ((c, DeleteSucceeded chatId) # es) = fresh_creates (chatId # gone) es"
| "fresh_creates gone (e # es) = fresh_creates gone es"

section \<open>The upload panel\<close>

text \<open>
  \<^verbatim>\<open>UploadPanel\<close>: the pending files, the pending URLs and what the URL field holds.
  \<^verbatim>\<open>new URL(currentUrl)\<close> is the platform's parser, not code of this repository: \<open>newURL\<close>
  says for which strings it returns instead of throwing. The panel's notifications go to
  the same log as the provider's.
\<close>

record panel =
  files :: "upload_file list"
  urls :: "string list"
  currentUrl :: string

definition handleAddUrl :: "(string \<Rightarrow> bool) \<Rightarrow> panel \<Rightarrow> store \<Rightarrow> panel \<times> store" where
  "handleAddUrl newURL p s =
     (if trim (currentUrl p) = [] then (p, s)
      else if newURL (currentUrl p)
        then (if length (urls p) \<ge> 10
              then (p, s\<lparr>toasts := toasts s @ [ToastWarning ''Maximum 10 URLs allowed'']\<rparr>)
              else (p\<lparr>urls := urls p @ [currentUrl p], currentUrl := []\<rparr>, s))
        else (p, toast_error ''Please enter a valid URL'' s))"

definition handleRemoveUrl :: "nat \<Rightarrow> panel \<Rightarrow> panel" where
  "handleRemoveUrl index p =
     p\<lparr>urls := map snd (filter (\<lambda>(i, u). i \<noteq> index) (enumerate 0 (urls p)))\<rparr>"

text \<open>
  \<^verbatim>\<open>handleUpload\<close> with the four responses its two operations get, run to completion. Both
  operations are the handlers of the render \<open>c\<close> in which the button was pressed.
\<close>

definition handleUpload ::
  "store \<Rightarrow> unit response \<Rightarrow> chat response \<Rightarrow> unit response \<Rightarrow> chat response \<Rightarrow>
     panel \<Rightarrow> store \<Rightarrow> panel \<times> store" where
  "handleUpload c r1 r2 r3 r4 p s =
     (if currentChat c = None then (p, toast_error ''Please create a new chat first'' s)
      else if files p = [] \<and> urls p = []
        then (p, toast_error ''Please add files or URLs to upload'' s)
        else (let (p1, s1) = (if files p \<noteq> []
                              then (p\<lparr>files := []\<rparr>, uploadDocuments_from c (files p) r1 r2 s)
                              else (p, s))
              in if urls p \<noteq> []
                 then (p1\<lparr>urls := []\<rparr>, addWebsites_from c (urls p) r3 r4 s1)
                 else (p1, s1)))"

datatype panel_action =
    TypeUrl string
  | AddUrl
  | RemoveUrl nat
  | Upload "unit response" "chat response" "unit response" "chat response"

fun panel_step :: "(string \<Rightarrow> bool) \<Rightarrow> panel_action \<Rightarrow> panel \<times> store \<Rightarrow> panel \<times> store" where
  "panel_step newURL (TypeUrl input) (p, s) = (p\<lparr>currentUrl := input\<rparr>, s)"
| "panel_step newURL AddUrl (p, s) = handleAddUrl newURL p s"
| "panel_step newURL (RemoveUrl index) (p, s) = (handleRemoveUrl index p, s)"
| "panel_step newURL (Upload r1 r2 r3 r4) (p, s) = handleUpload s r1 r2 r3 r4 p s"

fun panel_run :: "(string \<Rightarrow> bool) \<Rightarrow> panel_action list \<Rightarrow> panel \<times> store \<Rightarrow> panel \<times> store" where
  "panel_run newURL [] ps = ps"
| "panel_run newURL (a # as) ps = panel_run newURL as (panel_step newURL a ps)"

text \<open>The URLs that the requests issued so far carried.\<close>

fun urls_of_body :: "body \<Rightarrow> string list" where
  "urls_of_body (JsonUrls us) = us"
| "urls_of_body _ = []"

definition urls_sent :: "store \<Rightarrow> string set" where
  "urls_sent s = set (concat (map (\<lambda>r. urls_of_body (body r)) (fetches s)))"

text \<open>
  Every pending URL and every URL sent so far is one that \<^verbatim>\<open>new URL\<close> accepts.
\<close>

definition batch_ok :: "(string \<Rightarrow> bool) \<Rightarrow> panel \<times> store \<Rightarrow> bool" where
  "batch_ok newURL ps \<longleftrightarrow>
     (\<forall>u \<in> set (urls (fst ps)). newURL u) \<and> (\<forall>u \<in> urls_sent (snd ps). newURL u)"

section \<open>Example data\<close>

definition alice :: auth_user where
  "alice = \<lparr>user_id = ''u1'', email = ''alice@example.com'', name = ''Alice''\<rparr>"

definition chatX :: chat where
  "chatX = \<lparr>chat_id = ''x'', title = ''New Chat'', messages = [], createdAt = 1, updatedAt = 1\<rparr>"

definition chatY :: chat where
  "chatY = \<lparr>chat_id = ''y'', title = ''Older'', messages = [], createdAt = 0, updatedAt = 0\<rparr>"

text \<open>A logged-in provider with two chats, the first one active, nothing in flight.\<close>

definition st0 :: store where
  "st0 = \<lparr>user = Some alice, token = Some ''tok'', chats = [chatX, chatY],
          currentChat = Some chatX, isLoading = False, uploadingFiles = False,
          processingFiles = False, toasts = [], fetches = []\<rparr>"

text \<open>The chat \<open>x\<close> as the server returns it after the message \<open>hi\<close>.\<close>

definition chatX_answered :: chat where
  "chatX_answered =
     chatX\<lparr>messages := [\<lparr>message_id = ''m1'', role = User, content = ''hi'', timestamp = 6\<rparr>,
                         \<lparr>message_id = ''m2'', role = Assistant, content = ''hello'',
                          timestamp = 7\<rparr>],
           updatedAt := 7\<rparr>"


text \<open>A second identity with one chat of its own.\<close>

definition bob :: auth_user where
  "bob = \<lparr>user_id = ''u2'', email = ''bob@example.com'', name = ''Bob''\<rparr>"

definition chatB :: chat where
  "chatB = \<lparr>chat_id = ''b'', title = ''Notes'', messages = [], createdAt = 2, updatedAt = 2\<rparr>"

text \<open>
  A message is sent from \<open>st0\<close>, the user logs out while the request is in flight, then
  the successful response arrives.
\<close>

definition stale_send :: store where
  "stale_send =
     sendMessage_resolve (Response True (Some chatX_answered))
       (logout (fst (sendMessage_begin st0 ''hi'' 5 5 5 st0)))"


text \<open>The panel as it is mounted, and a stand-in for the URL parser.\<close>

definition empty_panel :: panel where
  "empty_panel = \<lparr>files = [], urls = [], currentUrl = []\<rparr>"

definition example_url :: "string \<Rightarrow> bool" where
  "example_url u \<longleftrightarrow> u = ''https://example.com''"

text \<open>
  The user enters a malformed URL, then a well-formed one, then presses the upload button.
\<close>

definition panel_example :: "panel_action list" where
  "panel_example =
     [TypeUrl ''not-a-url'', AddUrl, TypeUrl ''https://example.com'', AddUrl,
      Upload NetworkError NetworkError (Response True None) (Response True (Some chatX))]"

text \<open>
  Two creations, a rename and a deletion of \<open>y\<close>; the rename completes after the deletion.
\<close>

definition crud_example :: "(store \<times> event) list" where
  "crud_example =
     [(st0, CreateCalled), (st0, CreateCalled), (st0, CreateSucceeded chatY),
      (st0, RenameCalled ''y'' ''Plans''), (st0, CreateSucceeded chatX), (st0, DeleteCalled ''y''),
      (st0, DeleteSucceeded ''y''), (st0, RenameSucceeded ''y'' (chatY\<lparr>title := ''Plans''\<rparr>))]"

section \<open>Evaluation helpers\<close>

lemma digits5: "digits 5 = ''5''" by (simp add: digits.simps[of 5])

lemma show_int5: "show_int 5 = ''5''" by (simp add: show_int_def digits5)

section \<open>Preconditions of sendMessage (C1)\<close>

text \<open>
  C1 as stated fails: sendMessage itself tests neither the text nor \<^verbatim>\<open>isLoading\<close>. Called
  with a blank text while \<^verbatim>\<open>isLoading\<close> is set, it appends the provisional message to the
  active chat and issues the request.
\<close>

theorem sendMessage_unguarded_counterexample:
  "isLoading (st0\<lparr>isLoading := True\<rparr>) \<and> trim '' '' = [] \<and>
   sendMessage_begin (st0\<lparr>isLoading := True\<rparr>) '' '' 5 5 5 (st0\<lparr>isLoading := True\<rparr>) =
     (st0\<lparr>isLoading := True,
          currentChat := Some (chatX\<lparr>messages := [\<lparr>message_id = ''temp-5'', role = User,
                                                   content = '' '', timestamp = 5\<rparr>],
                                    updatedAt := 5\<rparr>),
          fetches := [\<lparr>url = ''http://localhost:8000/api/chats/x/messages'', http_method = ''POST'',
                       bearer = ''tok'', body = JsonContent '' ''\<rparr>]\<rparr>, True)"
  by (simp add: sendMessage_begin_def st0_def chatX_def alice_def fetch_def backendUrl_def
      show_int5 trim_def js_whitespace_def)

text \<open>
  C1, amended. sendMessage is rejected before any request, with the stored chats, the
  active chat and the flags unchanged, when the identity or the active chat is missing
  (one error notification) and, silently, when no credential is stored. The tests for a
  blank text and for \<^verbatim>\<open>isLoading\<close> are those of its caller \<^verbatim>\<open>ChatInput.handleSubmit\<close>, which
  then returns without calling sendMessage and changes nothing.
\<close>

theorem sendMessage_rejected:
  "(user c = None \<or> currentChat c = None \<longrightarrow>
      sendMessage_begin c input t_id t_msg t_upd s =
        (s\<lparr>toasts := toasts s @ [ToastError ''Please create a new chat first'']\<rparr>, False)) \<and>
   (user c \<noteq> None \<and> currentChat c \<noteq> None \<and> token s = None \<longrightarrow>
      sendMessage_begin c input t_id t_msg t_upd s = (s, False)) \<and>
   (trim input = [] \<or> isLoading c \<or> currentChat c = None \<longrightarrow>
      handleSubmit c input t_id t_msg t_upd s = (input, s, False))"
proof (intro conjI impI)
  assume "user c = None \<or> currentChat c = None"
  then show "sendMessage_begin c input t_id t_msg t_upd s =
        (s\<lparr>toasts := toasts s @ [ToastError ''Please create a new chat first'']\<rparr>, False)"
    by (cases "user c"; cases "currentChat c") (simp_all add: sendMessage_begin_def toast_error_def)
next
  assume "user c \<noteq> None \<and> currentChat c \<noteq> None \<and> token s = None"
  then show "sendMessage_begin c input t_id t_msg t_upd s = (s, False)"
    by (cases "user c"; cases "currentChat c") (simp_all add: sendMessage_begin_def)
next
  assume "trim input = [] \<or> isLoading c \<or> currentChat c = None"
  then show "handleSubmit c input t_id t_msg t_upd s = (input, s, False)"
    unfolding handleSubmit_def by simp
qed

theorem sendMessage_rejected_witness:
  "sendMessage_begin (st0\<lparr>currentChat := None\<rparr>) ''hi'' 5 5 5 (st0\<lparr>currentChat := None\<rparr>) =
     (st0\<lparr>currentChat := None, toasts := [ToastError ''Please create a new chat first'']\<rparr>, False) \<and>
   sendMessage_begin st0 ''hi'' 5 5 5 (st0\<lparr>token := None\<rparr>) = (st0\<lparr>token := None\<rparr>, False) \<and>
   handleSubmit (st0\<lparr>isLoading := True\<rparr>) ''hi'' 5 5 5 (st0\<lparr>isLoading := True\<rparr>) =
     (''hi'', st0\<lparr>isLoading := True\<rparr>, False) \<and>
   handleSubmit st0 '' '' 5 5 5 st0 = ('' '', st0, False)"
  using sendMessage_rejected [where c = "st0\<lparr>currentChat := None\<rparr>" and input = "''hi''" and t_id = 5
      and t_msg = 5 and t_upd = 5 and s = "st0\<lparr>currentChat := None\<rparr>"]
    sendMessage_rejected [where c = st0 and input = "''hi''" and t_id = 5 and t_msg = 5
      and t_upd = 5 and s = "st0\<lparr>token := None\<rparr>"]
    sendMessage_rejected [where c = "st0\<lparr>isLoading := True\<rparr>" and input = "''hi''" and t_id = 5
      and t_msg = 5 and t_upd = 5 and s = "st0\<lparr>isLoading := True\<rparr>"]
    sendMessage_rejected [where c = st0 and input = "'' ''" and t_id = 5 and t_msg = 5
      and t_upd = 5 and s = st0]
  by (simp add: st0_def trim_def js_whitespace_def)

section \<open>Facts about the steps\<close>





lemma reconcile_entries:
  "chat \<in> set (chats (reconcile updatedChat s)) \<Longrightarrow> chat_id chat = chat_id updatedChat \<Longrightarrow>
   chat = updatedChat"
  by (auto simp: reconcile_def)

section \<open>Reconciliation after a successful send (C2)\<close>




section \<open>The provisional message after a failed send (C10)\<close>



section \<open>Busy flags after completion (C3)\<close>





















section \<open>A failed rename (C6)\<close>




section \<open>Which flag each operation uses (C9)\<close>


















section \<open>Logout and late responses (C5)\<close>

lemma logout_clears:
  "user (logout s) = None \<and> token (logout s) = None \<and> chats (logout s) = [] \<and>
   currentChat (logout s) = None"
  by (simp add: logout_def userEffect_def toast_success_def)

lemma logout_in_flight:
  "chats (logout (fst (sendMessage_begin st0 ''hi'' 5 5 5 st0))) = [] \<and>
   currentChat (logout (fst (sendMessage_begin st0 ''hi'' 5 5 5 st0))) = None"
  by (simp add: logout_clears)

text \<open>
  C5 does not hold of the code. Logout does clear the stored chats and the active chat,
  also with a request in flight (\<open>logout_clears\<close>, \<open>logout_in_flight\<close>). But the response
  to a message sent before the logout is not discarded: afterwards there is no user and
  no stored chat, yet the returned chat is the active chat. It stays active when another
  identity comes up, since \<^verbatim>\<open>fetchChats\<close> selects a chat only if none is active.
\<close>

theorem stale_response_after_logout:
  "user stale_send = None \<and> chats stale_send = [] \<and>
   currentChat stale_send = Some chatX_answered \<and>
   currentChat (identityActivated bob (Response True (Some [chatB]))
      (stale_send\<lparr>token := Some ''tok2''\<rparr>)) = Some chatX_answered"
  by (simp add: stale_send_def sendMessage_resolve_def reconcile_def logout_clears
      identityActivated_def userEffect_def fetchChats_begin_def fetchChats_resolve_def fetch_def)

section \<open>The active chat is a stored chat (C4)\<close>


lemma active_ok_iff:
  "active_ok s \<longleftrightarrow> (\<forall>cur. currentChat s = Some cur \<longrightarrow> chat_id cur \<in> chat_id ` set (chats s))"
  by (simp add: active_ok_def split: option.splits)

lemma active_ok_same:
  "currentChat s' = currentChat s \<Longrightarrow> chats s' = chats s \<Longrightarrow> active_ok s' = active_ok s"
  by (simp add: active_ok_iff)


lemma active_ok_toast_success: "active_ok (toast_success msg s) = active_ok s"
  by (rule active_ok_same) (simp_all add: toast_success_def)




















lemma deleteChat_resolve_active:
  "map_option chat_id (currentChat c) = Some chatId \<Longrightarrow>
   deleteChat_resolve c chatId (Response True payload) s =
     s\<lparr>chats := filter (\<lambda>chat. chat_id chat \<noteq> chatId) (chats s),
       currentChat := (case filter (\<lambda>chat. chat_id chat \<noteq> chatId) (chats c) of
                         [] \<Rightarrow> None | first # _ \<Rightarrow> Some first)\<rparr>"
  unfolding deleteChat_resolve_def Let_def by (simp del: map_option_eq_Some)

lemma deleteChat_resolve_other:
  "map_option chat_id (currentChat c) \<noteq> Some chatId \<Longrightarrow>
   deleteChat_resolve c chatId (Response True payload) s =
     s\<lparr>chats := filter (\<lambda>chat. chat_id chat \<noteq> chatId) (chats s)\<rparr>"
  unfolding deleteChat_resolve_def Let_def by (simp del: map_option_eq_Some)







lemma renameChat_resolve_active:
  "map_option chat_id (currentChat c) = Some chatId \<Longrightarrow>
   renameChat_resolve c chatId (Response True (Some updatedChat)) s =
     s\<lparr>chats := map (\<lambda>chat. if chat_id chat = chatId then updatedChat else chat) (chats s),
       currentChat := Some updatedChat\<rparr>"
  unfolding renameChat_resolve_def Let_def by (simp del: map_option_eq_Some)

lemma renameChat_resolve_other:
  "map_option chat_id (currentChat c) \<noteq> Some chatId \<Longrightarrow>
   renameChat_resolve c chatId (Response True (Some updatedChat)) s =
     s\<lparr>chats := map (\<lambda>chat. if chat_id chat = chatId then updatedChat else chat) (chats s)\<rparr>"
  unfolding renameChat_resolve_def Let_def by (simp del: map_option_eq_Some)





















section \<open>The stored identifiers under create, rename and delete (C8)\<close>

lemma keys_called:
  "chats (fst (createChat_begin c s)) = chats s"
  "chats (fst (renameChat_begin chatId newTitle s)) = chats s"
  "chats (fst (deleteChat_begin chatId s)) = chats s"
  by (cases "user c"; cases "token s";
      simp add: createChat_begin_def renameChat_begin_def deleteChat_begin_def fetch_def
        toast_error_def)+

lemma keys_created:
  "chat_id ` set (chats (createChat_resolve (Response True (Some newChat)) s)) =
     insert (chat_id newChat) (chat_id ` set (chats s))"
  by (simp add: createChat_resolve_def)

lemma chats_renamed:
  "chats (renameChat_resolve c chatId (Response True (Some updatedChat)) s) =
     map (\<lambda>chat. if chat_id chat = chatId then updatedChat else chat) (chats s)"
  by (cases "map_option chat_id (currentChat c) = Some chatId")
    (simp_all add: renameChat_resolve_active renameChat_resolve_other)

lemma keys_renamed:
  assumes "chat_id updatedChat = chatId"
  shows "chat_id ` set (chats (renameChat_resolve c chatId (Response True (Some updatedChat)) s)) =
     chat_id ` set (chats s)"
proof -
  have "map chat_id (map (\<lambda>chat. if chat_id chat = chatId then updatedChat else chat) (chats s)) =
      map chat_id (chats s)"
    using assms by (induction "chats s") auto
  then have "set (map chat_id (chats (renameChat_resolve c chatId
      (Response True (Some updatedChat)) s))) = set (map chat_id (chats s))"
    by (simp only: chats_renamed)
  then show ?thesis
    by simp
qed

lemma chats_removed:
  "chats (deleteChat_resolve c chatId (Response True payload) s) =
     filter (\<lambda>chat. chat_id chat \<noteq> chatId) (chats s)"
  by (cases "map_option chat_id (currentChat c) = Some chatId")
    (simp_all add: deleteChat_resolve_active deleteChat_resolve_other)

lemma keys_removed:
  "chat_id ` set (chats (deleteChat_resolve c chatId (Response True payload) s)) =
     chat_id ` set (chats s) - {chatId}"
  by (auto simp: chats_removed)

lemma created_not_gone: "fresh_creates gone es \<Longrightarrow> created es \<inter> set gone = {}"
  by (induction gone es rule: fresh_creates.induct) auto

lemma keys_run:
  "fresh_creates gone es \<Longrightarrow> rename_keeps_id es \<Longrightarrow>
   chat_id ` set (chats (run es s)) = (chat_id ` set (chats s) \<union> created es) - removed es"
proof (induction es arbitrary: gone s)
  case Nil
  show ?case by simp
next
  case (Cons e es)
  obtain c ev where e: "e = (c, ev)"
    by (cases e) auto
  show ?case
  proof (cases ev)
    case CreateCalled
    with Cons e show ?thesis
      by (simp add: keys_called)
  next
    case (RenameCalled chatId newTitle)
    with Cons e show ?thesis
      by (simp add: keys_called)
  next
    case (DeleteCalled chatId)
    with Cons e show ?thesis
      by (simp add: keys_called)
  next
    case (CreateSucceeded newChat)
    with Cons.prems e have "fresh_creates gone es" "rename_keeps_id es"
      by simp_all
    from Cons.IH [OF this] CreateSucceeded e show ?thesis
      by (simp add: keys_created)
  next
    case (RenameSucceeded chatId updatedChat)
    with Cons.prems e
    have p: "fresh_creates gone es" "rename_keeps_id es" "chat_id updatedChat = chatId"
      by simp_all
    from Cons.IH [OF p(1,2)] RenameSucceeded e p(3) show ?thesis
      by (simp add: keys_renamed)
  next
    case (DeleteSucceeded chatId)
    with Cons.prems e have p: "fresh_creates (chatId # gone) es" "rename_keeps_id es"
      by simp_all
    from created_not_gone [OF p(1)] have "chatId \<notin> created es"
      by auto
    with Cons.IH [OF p] DeleteSucceeded e show ?thesis
      by (simp add: keys_removed) blast
  qed
qed

text \<open>
  C8. For every interleaving of calls and successful completions of createChat, renameChat
  and deleteChat, with the server returning the renamed chat under its identifier and
  never reusing a deleted identifier, the identifiers stored afterwards are those stored
  before and those created, minus those deleted; from an empty list, the created minus the
  deleted.
\<close>

theorem key_set_created_minus_removed:
  assumes "fresh_creates [] es" and "rename_keeps_id es"
  shows "set (map chat_id (chats (run es s))) =
      (set (map chat_id (chats s)) \<union> created es) - removed es \<and>
    (chats s = [] \<longrightarrow> set (map chat_id (chats (run es s))) = created es - removed es)"
  using keys_run [OF assms, of s] by simp

theorem key_set_created_minus_removed_witness:
  "fresh_creates [] crud_example \<and> rename_keeps_id crud_example \<and>
   chats (st0\<lparr>chats := [], currentChat := None\<rparr>) = [] \<and>
   created crud_example - removed crud_example = {''x''} \<and>
   set (map chat_id (chats (run crud_example (st0\<lparr>chats := [], currentChat := None\<rparr>)))) = {''x''}"
proof -
  have a: "fresh_creates [] crud_example"
    by (simp add: crud_example_def chatX_def chatY_def)
  have b: "rename_keeps_id crud_example"
    by (simp add: crud_example_def chatY_def)
  have c: "created crud_example - removed crud_example = {''x''}"
    by (simp add: crud_example_def chatX_def chatY_def)
  from key_set_created_minus_removed [OF a b, of "st0\<lparr>chats := [], currentChat := None\<rparr>"] a b c
  show ?thesis
    by simp
qed

section \<open>URLs are validated before they are pending (C7)\<close>

lemma urls_sent_fetch: "urls_sent (fetch r s) = urls_sent s \<union> set (urls_of_body (body r))"
  by (simp add: urls_sent_def fetch_def)

lemma urls_sent_same: "fetches s' = fetches s \<Longrightarrow> urls_sent s' = urls_sent s"
  by (simp add: urls_sent_def)

lemma urls_sent_toast_error: "urls_sent (toast_error msg s) = urls_sent s"
  by (simp add: urls_sent_def toast_error_def)

lemma urls_sent_toast_success: "urls_sent (toast_success msg s) = urls_sent s"
  by (simp add: urls_sent_def toast_success_def)

lemma urls_sent_updates:
  "urls_sent (s\<lparr>uploadingFiles := b\<rparr>) = urls_sent s"
  "urls_sent (s\<lparr>processingFiles := b\<rparr>) = urls_sent s"
  "urls_sent (s\<lparr>uploadingFiles := b, processingFiles := b'\<rparr>) = urls_sent s"
  by (simp_all add: urls_sent_def)

lemma urls_sent_reconcile: "urls_sent (reconcile updatedChat s) = urls_sent s"
  by (simp add: urls_sent_def reconcile_def)

lemma urls_sent_refetch: "urls_sent (refetch p s) = urls_sent s"
  by (simp add: refetch_def urls_sent_fetch)

lemma urls_sent_uploadDocuments_begin:
  "urls_sent (fst (uploadDocuments_begin c fs s)) = urls_sent s"
  by (cases "user c"; cases "currentChat c"; cases "token s")
    (simp_all add: uploadDocuments_begin_def urls_sent_fetch urls_sent_toast_error urls_sent_updates)

lemma urls_sent_uploadDocuments_failed: "urls_sent (uploadDocuments_failed s) = urls_sent s"
  by (simp add: uploadDocuments_failed_def urls_sent_updates urls_sent_toast_error)

lemma urls_sent_uploadDocuments_accepted:
  "urls_sent (fst (uploadDocuments_accepted resp s)) = urls_sent s"
proof (cases resp)
  case NetworkError
  then show ?thesis
    by (simp add: uploadDocuments_accepted_def urls_sent_uploadDocuments_failed)
next
  case (Response ok payload)
  then show ?thesis
    by (cases ok; cases payload)
      (simp_all add: uploadDocuments_accepted_def urls_sent_uploadDocuments_failed
        urls_sent_updates)
qed

lemma urls_sent_uploadDocuments_resolve:
  "urls_sent (uploadDocuments_resolve fs resp s) = urls_sent s"
proof (cases resp)
  case NetworkError
  then show ?thesis
    by (simp add: uploadDocuments_resolve_def urls_sent_uploadDocuments_failed)
next
  case (Response ok payload)
  then show ?thesis
    by (cases ok; cases payload)
      (simp_all add: uploadDocuments_resolve_def urls_sent_uploadDocuments_failed
        urls_sent_updates urls_sent_toast_success urls_sent_reconcile)
qed

lemma urls_sent_uploadDocuments_from:
  "urls_sent (uploadDocuments_from c fs r1 r2 s) = urls_sent s"
proof -
  obtain s1 p where b: "uploadDocuments_begin c fs s = (s1, p)"
    by (cases "uploadDocuments_begin c fs s") auto
  obtain s2 ok where a: "uploadDocuments_accepted r1 s1 = (s2, ok)"
    by (cases "uploadDocuments_accepted r1 s1") auto
  from b urls_sent_uploadDocuments_begin [of c fs s] have 1: "urls_sent s1 = urls_sent s"
    by simp
  from a urls_sent_uploadDocuments_accepted [of r1 s1] 1 have 2: "urls_sent s2 = urls_sent s"
    by simp
  show ?thesis
  proof (cases p)
    case None
    with b 1 show ?thesis
      by (simp add: uploadDocuments_from_def)
  next
    case (Some q)
    with b a 1 2 show ?thesis
      by (cases ok)
        (simp_all add: uploadDocuments_from_def urls_sent_uploadDocuments_resolve
          urls_sent_refetch)
  qed
qed

lemma urls_sent_addWebsites_begin:
  "urls_sent (fst (addWebsites_begin c us s)) \<subseteq> urls_sent s \<union> set us"
  by (cases "user c"; cases "currentChat c"; cases "token s")
    (simp_all add: addWebsites_begin_def urls_sent_fetch urls_sent_toast_error urls_sent_updates)

lemma urls_sent_addWebsites_failed: "urls_sent (addWebsites_failed s) = urls_sent s"
  by (simp add: addWebsites_failed_def urls_sent_updates urls_sent_toast_error)

lemma urls_sent_addWebsites_accepted:
  "urls_sent (fst (addWebsites_accepted resp s)) = urls_sent s"
proof (cases resp)
  case NetworkError
  then show ?thesis
    by (simp add: addWebsites_accepted_def urls_sent_addWebsites_failed)
next
  case (Response ok payload)
  then show ?thesis
    by (cases ok) (simp_all add: addWebsites_accepted_def urls_sent_addWebsites_failed)
qed

lemma urls_sent_addWebsites_resolve:
  "urls_sent (addWebsites_resolve us resp s) = urls_sent s"
proof (cases resp)
  case NetworkError
  then show ?thesis
    by (simp add: addWebsites_resolve_def urls_sent_addWebsites_failed)
next
  case (Response ok payload)
  then show ?thesis
    by (cases ok; cases payload)
      (simp_all add: addWebsites_resolve_def urls_sent_addWebsites_failed
        urls_sent_updates urls_sent_toast_success urls_sent_reconcile)
qed

lemma urls_sent_addWebsites_from:
  "urls_sent (addWebsites_from c us r1 r2 s) \<subseteq> urls_sent s \<union> set us"
proof -
  obtain s1 p where b: "addWebsites_begin c us s = (s1, p)"
    by (cases "addWebsites_begin c us s") auto
  obtain s2 ok where a: "addWebsites_accepted r1 s1 = (s2, ok)"
    by (cases "addWebsites_accepted r1 s1") auto
  from b urls_sent_addWebsites_begin [of c us s] have 1: "urls_sent s1 \<subseteq> urls_sent s \<union> set us"
    by simp
  from a urls_sent_addWebsites_accepted [of r1 s1] 1 have 2: "urls_sent s2 \<subseteq> urls_sent s \<union> set us"
    by simp
  show ?thesis
  proof (cases p)
    case None
    with b 1 show ?thesis
      by (simp add: addWebsites_from_def)
  next
    case (Some q)
    with b a 1 2 show ?thesis
      by (cases ok)
        (simp_all add: addWebsites_from_def urls_sent_addWebsites_resolve urls_sent_refetch)
  qed
qed

lemma handleAddUrl_invalid:
  assumes "\<not> newURL (currentUrl p)"
  shows "fst (handleAddUrl newURL p s) = p \<and>
    fetches (snd (handleAddUrl newURL p s)) = fetches s \<and>
    (trim (currentUrl p) \<noteq> [] \<longrightarrow>
       toasts (snd (handleAddUrl newURL p s)) = toasts s @ [ToastError ''Please enter a valid URL''])"
  using assms by (simp add: handleAddUrl_def toast_error_def)

lemma batch_ok_handleAddUrl:
  assumes "batch_ok newURL (p, s)"
  shows "batch_ok newURL (handleAddUrl newURL p s)"
proof (cases "trim (currentUrl p) = []")
  case True
  with assms show ?thesis
    by (simp add: handleAddUrl_def)
next
  case False
  show ?thesis
  proof (cases "newURL (currentUrl p)")
    case True
    with False assms show ?thesis
      by (simp add: handleAddUrl_def batch_ok_def urls_sent_def)
  next
    case no: False
    with False assms show ?thesis
      by (simp add: handleAddUrl_def batch_ok_def urls_sent_toast_error)
  qed
qed

lemma handleRemoveUrl_subset: "set (urls (handleRemoveUrl index p)) \<subseteq> set (urls p)"
proof
  fix u
  assume "u \<in> set (urls (handleRemoveUrl index p))"
  then obtain i where "(i, u) \<in> set (enumerate 0 (urls p))"
    by (auto simp: handleRemoveUrl_def)
  then show "u \<in> set (urls p)"
    by (auto simp: in_set_enumerate_eq)
qed

lemma batch_ok_handleRemoveUrl:
  assumes "batch_ok newURL (p, s)"
  shows "batch_ok newURL (handleRemoveUrl index p, s)"
  using assms handleRemoveUrl_subset [of index p] by (auto simp: batch_ok_def)

lemma batch_ok_handleUpload:
  assumes "batch_ok newURL (p, s)"
  shows "batch_ok newURL (handleUpload c r1 r2 r3 r4 p s)"
proof (cases "currentChat c = None \<or> (files p = [] \<and> urls p = [])")
  case True
  with assms show ?thesis
    by (auto simp: handleUpload_def batch_ok_def urls_sent_toast_error)
next
  case False
  define s1 where "s1 = (if files p \<noteq> [] then uploadDocuments_from c (files p) r1 r2 s else s)"
  define p1 where "p1 = (if files p \<noteq> [] then p\<lparr>files := []\<rparr> else p)"
  have sent1: "urls_sent s1 = urls_sent s"
    by (simp add: s1_def urls_sent_uploadDocuments_from)
  have urls1: "urls p1 = urls p"
    by (simp add: p1_def)
  have run: "handleUpload c r1 r2 r3 r4 p s =
      (if urls p \<noteq> [] then (p1\<lparr>urls := []\<rparr>, addWebsites_from c (urls p) r3 r4 s1) else (p1, s1))"
  proof -
    from False obtain cur where cur: "currentChat c = Some cur"
      by auto
    from False have some: "\<not> (files p = [] \<and> urls p = [])"
      by simp
    show ?thesis
      unfolding handleUpload_def s1_def p1_def using some by (simp add: cur)
  qed
  show ?thesis
  proof (cases "urls p = []")
    case True
    with assms sent1 urls1 show ?thesis
      by (simp add: run batch_ok_def)
  next
    case no: False
    have "urls_sent (addWebsites_from c (urls p) r3 r4 s1) \<subseteq> urls_sent s \<union> set (urls p)"
      using urls_sent_addWebsites_from [of c "urls p" r3 r4 s1] sent1 by simp
    with assms no show ?thesis
      by (auto simp: run batch_ok_def)
  qed
qed

lemma batch_ok_panel_step:
  assumes "batch_ok newURL ps"
  shows "batch_ok newURL (panel_step newURL a ps)"
proof -
  obtain p s where ps: "ps = (p, s)"
    by (cases ps) auto
  show ?thesis
  proof (cases a)
    case (TypeUrl v)
    with assms ps show ?thesis
      by (simp add: batch_ok_def)
  next
    case AddUrl
    with assms ps show ?thesis
      by (simp add: batch_ok_handleAddUrl)
  next
    case (RemoveUrl index)
    with assms ps show ?thesis
      by (simp add: batch_ok_handleRemoveUrl)
  next
    case (Upload r1 r2 r3 r4)
    with assms ps show ?thesis
      by (simp add: batch_ok_handleUpload)
  qed
qed

lemma batch_ok_panel_run:
  "batch_ok newURL ps \<Longrightarrow> batch_ok newURL (panel_run newURL as ps)"
  by (induction as arbitrary: ps) (simp_all add: batch_ok_panel_step)

text \<open>
  C7. A URL that \<^verbatim>\<open>new URL\<close> rejects is not added to the pending URLs and no request is
  issued; unless the field is blank, the error \<^verbatim>\<open>Please enter a valid URL\<close> is shown (a blank
  field is ignored without a notification). Whatever the user does in the panel, the
  pending URLs and the URLs carried by the requests are accepted ones; from the mounted
  panel, every URL ever sent is.
\<close>

theorem urls_validated_before_batch:
  "(\<not> newURL (currentUrl p) \<longrightarrow>
      fst (handleAddUrl newURL p s) = p \<and>
      fetches (snd (handleAddUrl newURL p s)) = fetches s \<and>
      (trim (currentUrl p) \<noteq> [] \<longrightarrow>
         toasts (snd (handleAddUrl newURL p s)) =
           toasts s @ [ToastError ''Please enter a valid URL''])) \<and>
   (batch_ok newURL (p, s) \<longrightarrow> batch_ok newURL (panel_run newURL as (p, s))) \<and>
   (urls_sent s = {} \<longrightarrow>
      (\<forall>u \<in> urls_sent (snd (panel_run newURL as (empty_panel, s))). newURL u))"
proof (intro conjI impI)
  assume "\<not> newURL (currentUrl p)"
  then show "fst (handleAddUrl newURL p s) = p"
    and "fetches (snd (handleAddUrl newURL p s)) = fetches s"
    by (simp_all add: handleAddUrl_invalid)
next
  assume "\<not> newURL (currentUrl p)" and "trim (currentUrl p) \<noteq> []"
  then show "toasts (snd (handleAddUrl newURL p s)) =
      toasts s @ [ToastError ''Please enter a valid URL'']"
    by (simp add: handleAddUrl_invalid)
next
  assume "batch_ok newURL (p, s)"
  then show "batch_ok newURL (panel_run newURL as (p, s))"
    by (rule batch_ok_panel_run)
next
  assume "urls_sent s = {}"
  then have "batch_ok newURL (empty_panel, s)"
    by (simp add: batch_ok_def empty_panel_def)
  then have "batch_ok newURL (panel_run newURL as (empty_panel, s))"
    by (rule batch_ok_panel_run)
  then show "\<forall>u \<in> urls_sent (snd (panel_run newURL as (empty_panel, s))). newURL u"
    by (simp add: batch_ok_def)
qed


lemma trim_not_a_url: "trim ''not-a-url'' = ''not-a-url''"
  by (simp add: trim_def js_whitespace_def)

theorem urls_validated_before_batch_witness:
  "\<not> example_url ''not-a-url'' \<and> trim ''not-a-url'' \<noteq> [] \<and>
   fst (handleAddUrl example_url (empty_panel\<lparr>currentUrl := ''not-a-url''\<rparr>) st0) =
     empty_panel\<lparr>currentUrl := ''not-a-url''\<rparr> \<and>
   fetches (snd (handleAddUrl example_url (empty_panel\<lparr>currentUrl := ''not-a-url''\<rparr>) st0)) = [] \<and>
   toasts (snd (handleAddUrl example_url (empty_panel\<lparr>currentUrl := ''not-a-url''\<rparr>) st0)) =
     [ToastError ''Please enter a valid URL''] \<and>
   batch_ok example_url (empty_panel, st0) \<and>
   batch_ok example_url (panel_run example_url panel_example (empty_panel, st0)) \<and>
   urls_sent st0 = {} \<and>
   ''not-a-url'' \<notin> urls_sent (snd (panel_run example_url panel_example (empty_panel, st0)))"
proof -
  have a: "\<not> example_url ''not-a-url''"
    by (simp add: example_url_def)
  have b: "trim ''not-a-url'' \<noteq> []"
    by (simp add: trim_not_a_url)
  have c: "urls_sent st0 = {}" "fetches st0 = []" "toasts st0 = []"
    by (simp_all add: urls_sent_def st0_def)
  have d: "batch_ok example_url (empty_panel, st0)"
    by (simp add: batch_ok_def empty_panel_def c)
  from urls_validated_before_batch [where newURL = example_url
      and p = "empty_panel\<lparr>currentUrl := ''not-a-url''\<rparr>" and s = st0 and as = panel_example]
    urls_validated_before_batch [where newURL = example_url and p = empty_panel and s = st0
      and as = panel_example] a b c d
  show ?thesis
    by auto
qed

lemma panel_example_run:
  "urls_sent (snd (panel_run example_url panel_example (empty_panel, st0))) =
     {''https://example.com''} \<and>
   urls (fst (panel_run example_url panel_example (empty_panel, st0))) = []"
  by (simp add: panel_example_def empty_panel_def example_url_def handleAddUrl_def
      handleUpload_def addWebsites_from_def addWebsites_begin_def addWebsites_accepted_def
      addWebsites_resolve_def refetch_def fetch_def toast_error_def toast_success_def
      reconcile_def urls_sent_def st0_def trim_def js_whitespace_def)

end
